theory Spec2Isabelle
  imports Complex_Main
begin

section \<open>The store state manager of the e-commerce storefront\<close>

text \<open>
  Source: \<^verbatim>\<open>src/types.ts\<close> (the data model) and \<^verbatim>\<open>src/App.tsx\<close> (the provider
  \<^verbatim>\<open>AppProvider\<close> that owns the four collections and exposes the operations).

  \<^verbatim>\<open>src/App.tsx\<close> holds two revisions of the provider: the one at lines 80-178 and the
  one at lines 840-944. Their operations are the same text, except that the later one
  declares the operations on products and orders \<^verbatim>\<open>async\<close>, adds the constant
  \<^verbatim>\<open>SHIPPING_COST\<close> to the total of a new order and exposes \<^verbatim>\<open>totalSalesAmount\<close>.
  Every definition below is the translation of the later revision; the one function
  that differs in the earlier revision, \<^verbatim>\<open>placeOrder\<close> at lines 138-152, is translated
  as well, as \<open>placeOrder_138\<close>.

  Modelling decisions.
  \<^item> A TypeScript interface is a record; \<^verbatim>\<open>CartItem extends Product\<close> is a record
    extension. The fields \<^verbatim>\<open>id\<close> and \<^verbatim>\<open>name\<close> occur in several interfaces and
    \<open>id\<close> is a constant of HOL, so they carry the interface as a prefix.
  \<^item> A JavaScript \<^verbatim>\<open>number\<close> is a value of the type \<open>number\<close> below: \<^verbatim>\<open>NaN\<close>, the
    two infinities, or a finite double, with \<^verbatim>\<open>+\<close>, \<^verbatim>\<open>*\<close> and \<^verbatim>\<open><=\<close> as IEEE 754
    binary64 defines them (round to nearest, ties to even). A clock reading is a
    natural number.
  \<^item> A React state cell with its setter is a field of the record \<open>Store\<close>; an
    operation is a function from the store its closure captured to the store of the next
    render, when it is the only call made from that render. The setter of
    \<^verbatim>\<open>useLocalStorage\<close> (lines 790-794) applies the updater to the value the render
    captured, not to the latest value; \<open>render\<close> below combines the calls made from one
    render accordingly. The setter updates the cell before it writes the serialised
    value to the browser storage, and a failing write is logged and dropped, so the
    in-memory store is all the operations depend on.
  \<^item> \<^verbatim>\<open>Date.now()\<close> is an input of the operation that reads it: one parameter for
    each read.
  \<^item> An \<^verbatim>\<open>async\<close> function without \<^verbatim>\<open>await\<close> runs its body synchronously; its
    promise is modelled by the value it resolves to, \<^verbatim>\<open>string | null\<close> by
    \<open>string option\<close>.
\<close>

subsection \<open>JavaScript numbers\<close>

text \<open>
  \<open>Num r\<close> is the finite double whose value is the rational \<open>r\<close>; it is meant for
  the rationals that are doubles, and the theorems below hold for every \<open>r\<close>. The two
  zeros of IEEE 754 are one value here: \<^verbatim>\<open>+\<close>, \<^verbatim>\<open>*\<close> and \<^verbatim>\<open><=\<close> give results that
  differ at most in the sign of a zero when the sign of a zero argument changes.
\<close>

datatype number = NaN | PosInf | NegInf | Num rat

text \<open>
  Rounding a rational to the nearest double. For \<open>x > 0\<close> the exponent \<open>e\<close> of the
  last place is the least \<open>e \<ge> -1074\<close> with \<open>x < 2\<^sup>5\<^sup>3 * 2\<^sup>e\<close>, capped at the largest
  exponent 971; it is searched upwards or downwards from 0.
\<close>

function expo_up :: "int \<Rightarrow> rat \<Rightarrow> int" where
  "expo_up e x = (if 2 ^ 53 * 2 powi e \<le> x \<and> e < 971 then expo_up (e + 1) x else e)"
  by pat_completeness auto
termination
  by (relation "measure (\<lambda>(e, x). nat (971 - e))") auto

function expo_down :: "int \<Rightarrow> rat \<Rightarrow> int" where
  "expo_down e x = (if x < 2 ^ 52 * 2 powi e \<and> - 1074 < e then expo_down (e - 1) x else e)"
  by pat_completeness auto
termination
  by (relation "measure (\<lambda>(e, x). nat (e + 1074))") auto

declare expo_up.simps [simp del] expo_down.simps [simp del]

definition quantum_exp :: "rat \<Rightarrow> int" where
  "quantum_exp x = (if 2 ^ 53 \<le> x then expo_up 0 x else expo_down 0 x)"

text \<open>The nearest integer, a tie going to the even one.\<close>

definition round_half_even :: "rat \<Rightarrow> int" where
  "round_half_even r =
     (if r - of_int \<lfloor>r\<rfloor> < 1 / 2 then \<lfloor>r\<rfloor>
      else if 1 / 2 < r - of_int \<lfloor>r\<rfloor> then \<lfloor>r\<rfloor> + 1
      else if even \<lfloor>r\<rfloor> then \<lfloor>r\<rfloor> else \<lfloor>r\<rfloor> + 1)"

text \<open>
  The magnitude is rounded to a multiple \<open>m * 2\<^sup>e\<close> of the last place; a result of
  \<open>2\<^sup>5\<^sup>3 * 2\<^sup>9\<^sup>7\<^sup>1 = 2\<^sup>1\<^sup>0\<^sup>2\<^sup>4\<close> or more overflows to an infinity.
\<close>

definition round64 :: "rat \<Rightarrow> number" where
  "round64 x =
     (let a = \<bar>x\<bar>; e = quantum_exp a; m = round_half_even (a / 2 powi e) in
      if e = 971 \<and> 2 ^ 53 \<le> m then (if 0 \<le> x then PosInf else NegInf)
      else Num (sgn x * of_int m * 2 powi e))"

text \<open>\<^verbatim>\<open>x + y\<close>\<close>

fun number_add :: "number \<Rightarrow> number \<Rightarrow> number" where
  "number_add NaN y = NaN"
| "number_add x NaN = NaN"
| "number_add PosInf NegInf = NaN"
| "number_add NegInf PosInf = NaN"
| "number_add PosInf y = PosInf"
| "number_add x PosInf = PosInf"
| "number_add NegInf y = NegInf"
| "number_add x NegInf = NegInf"
| "number_add (Num a) (Num b) = round64 (a + b)"

text \<open>\<^verbatim>\<open>x * y\<close>\<close>

fun number_mul :: "number \<Rightarrow> number \<Rightarrow> number" where
  "number_mul NaN y = NaN"
| "number_mul x NaN = NaN"
| "number_mul (Num a) (Num b) = round64 (a * b)"
| "number_mul (Num a) PosInf = (if a = 0 then NaN else if 0 < a then PosInf else NegInf)"
| "number_mul (Num a) NegInf = (if a = 0 then NaN else if 0 < a then NegInf else PosInf)"
| "number_mul PosInf (Num b) = (if b = 0 then NaN else if 0 < b then PosInf else NegInf)"
| "number_mul NegInf (Num b) = (if b = 0 then NaN else if 0 < b then NegInf else PosInf)"
| "number_mul PosInf PosInf = PosInf"
| "number_mul PosInf NegInf = NegInf"
| "number_mul NegInf PosInf = NegInf"
| "number_mul NegInf NegInf = PosInf"

text \<open>\<^verbatim>\<open>x <= y\<close> and \<^verbatim>\<open>x < y\<close>: false whenever an argument is \<^verbatim>\<open>NaN\<close>.\<close>

fun number_le :: "number \<Rightarrow> number \<Rightarrow> bool" where
  "number_le NaN y = False"
| "number_le x NaN = False"
| "number_le NegInf y = True"
| "number_le x PosInf = True"
| "number_le PosInf y = False"
| "number_le x NegInf = False"
| "number_le (Num a) (Num b) = (a \<le> b)"

fun number_lt :: "number \<Rightarrow> number \<Rightarrow> bool" where
  "number_lt NaN y = False"
| "number_lt x NaN = False"
| "number_lt PosInf y = False"
| "number_lt x NegInf = False"
| "number_lt NegInf y = True"
| "number_lt x PosInf = True"
| "number_lt (Num a) (Num b) = (a < b)"

text \<open>
  The operators of the source are written as in the source. The type is an instance of
  the classes that only give the notation, and of no class with a law: addition of
  doubles is not associative.
\<close>

instantiation number :: "{zero, one, plus, times, ord}"
begin

definition zero_number :: number where
  "zero_number = Num 0"

definition one_number :: number where
  "one_number = Num 1"

definition plus_number :: "number \<Rightarrow> number \<Rightarrow> number" where
  "plus_number = number_add"

definition times_number :: "number \<Rightarrow> number \<Rightarrow> number" where
  "times_number = number_mul"

definition less_eq_number :: "number \<Rightarrow> number \<Rightarrow> bool" where
  "less_eq_number = number_le"

definition less_number :: "number \<Rightarrow> number \<Rightarrow> bool" where
  "less_number = number_lt"

instance ..

end

text \<open>A number that is a (finite) integer, and the integer it is.\<close>

definition integral :: "number \<Rightarrow> bool" where
  "integral x = (case x of Num r \<Rightarrow> r = of_int \<lfloor>r\<rfloor> | _ \<Rightarrow> False)"

definition int_of :: "number \<Rightarrow> int" where
  "int_of x = (case x of Num r \<Rightarrow> \<lfloor>r\<rfloor> | _ \<Rightarrow> 0)"

text \<open>The exact value of a finite number, for comparison with the exact sums.\<close>

definition exact :: "number \<Rightarrow> rat" where
  "exact x = (case x of Num r \<Rightarrow> r | _ \<Rightarrow> 0)"

subsection \<open>Data model (\<^verbatim>\<open>src/types.ts\<close>)\<close>

record Product =
  product_id :: string
  product_name :: string
  price :: number
  image :: string
  description :: string

record CartItem = Product +
  quantity :: number

text \<open>\<^verbatim>\<open>Omit<Product, 'id'>\<close>, the argument of \<^verbatim>\<open>addProduct\<close>.\<close>

record ProductData =
  data_name :: string
  data_price :: number
  data_image :: string
  data_description :: string

record CustomerInfo =
  customer_name :: string
  phone :: string
  address :: string

datatype PaymentMethod = Cash_on_Delivery

datatype OrderStatus = Pending | Shipped | Delivered

record Order =
  order_id :: string
  customerInfo :: CustomerInfo
  items :: "CartItem list"
  totalAmount :: number
  paymentMethod :: PaymentMethod
  timestamp :: nat
  status :: OrderStatus

text \<open>The four state cells of \<^verbatim>\<open>AppProvider\<close> (lines 841-844).\<close>

record Store =
  isAdmin :: bool
  products :: "Product list"
  cart :: "CartItem list"
  orders :: "Order list"

subsection \<open>Constants (lines 764-767)\<close>

definition ADMIN_EMAIL :: string where
  "ADMIN_EMAIL = ''admin@example.com''"

definition ADMIN_PASSWORD :: string where
  "ADMIN_PASSWORD = ''password123''"

definition SHIPPING_COST :: number where
  "SHIPPING_COST = Num 250"

text \<open>\<^verbatim>\<open>initialProducts\<close> (lines 769-776).\<close>

definition initialProducts :: "Product list" where
  "initialProducts =
     [\<lparr>product_id = ''1'', product_name = ''Classic Leather Wallet'', price = Num 2500,
       image = ''https://picsum.photos/seed/product1/400/300'',
       description = ''A high-quality classic leather wallet with multiple compartments.''\<rparr>,
      \<lparr>product_id = ''2'', product_name = ''Modern Smartwatch DX'', price = Num 15000,
       image = ''https://picsum.photos/seed/product2/400/300'',
       description = ''Stay connected with this sleek and feature-rich smartwatch.''\<rparr>,
      \<lparr>product_id = ''3'', product_name = ''Wireless Bluetooth Headphones'', price = Num 7000,
       image = ''https://picsum.photos/seed/product3/400/300'',
       description = ''Immersive sound quality with long-lasting battery life.''\<rparr>,
      \<lparr>product_id = ''4'', product_name = ''Ergonomic Office Chair'', price = Num 22000,
       image = ''https://picsum.photos/seed/product4/400/300'',
       description = ''Comfortable and supportive chair for long working hours.''\<rparr>,
      \<lparr>product_id = ''5'', product_name = ''Portable Coffee Maker'', price = Num 4500,
       image = ''https://picsum.photos/seed/product5/400/300'',
       description = ''Enjoy fresh coffee anywhere with this portable maker.''\<rparr>,
      \<lparr>product_id = ''6'', product_name = ''Yoga Mat Premium'', price = Num 3000,
       image = ''https://picsum.photos/seed/product6/400/300'',
       description = ''Non-slip and eco-friendly yoga mat for your practice.''\<rparr>]"

text \<open>
  The store of a browser whose storage is empty: the second argument of each
  \<^verbatim>\<open>useLocalStorage\<close> call (lines 841-844).
\<close>

definition initialStore :: Store where
  "initialStore = \<lparr>isAdmin = False, products = initialProducts, cart = [], orders = []\<rparr>"

subsection \<open>\<^verbatim>\<open>Date.now().toString()\<close>\<close>

text \<open>
  \<^verbatim>\<open>Number.prototype.toString\<close> on a non-negative integer below \<open>10\<^sup>2\<^sup>1\<close> (every clock
  reading is) gives its decimal digits, without leading zeros.
\<close>

definition digit :: "nat \<Rightarrow> char" where
  "digit d = ''0123456789'' ! d"

fun toString :: "nat \<Rightarrow> string" where
  "toString n = (if n < 10 then [digit n] else toString (n div 10) @ [digit (n mod 10)])"

declare toString.simps [simp del]

subsection \<open>Auth logic (lines 847-854)\<close>

definition login :: "string \<Rightarrow> string \<Rightarrow> Store \<Rightarrow> bool \<times> Store" where
  "login email pass s =
     (if email = ADMIN_EMAIL \<and> pass = ADMIN_PASSWORD
      then (True, s\<lparr>isAdmin := True\<rparr>)
      else (False, s))"

definition logout :: "Store \<Rightarrow> Store" where
  "logout s = s\<lparr>isAdmin := False\<rparr>"

subsection \<open>Product logic (lines 857-867)\<close>

definition newProduct :: "nat \<Rightarrow> ProductData \<Rightarrow> Product" where
  "newProduct now productData =
     \<lparr>product_id = toString now, product_name = data_name productData,
      price = data_price productData, image = data_image productData,
      description = data_description productData\<rparr>"

definition addProduct :: "nat \<Rightarrow> ProductData \<Rightarrow> Store \<Rightarrow> Store" where
  "addProduct now productData s =
     s\<lparr>products := products s @ [newProduct now productData]\<rparr>"

definition editProduct :: "Product \<Rightarrow> Store \<Rightarrow> Store" where
  "editProduct updatedProduct s =
     s\<lparr>products :=
         map (\<lambda>p. if product_id p = product_id updatedProduct then updatedProduct else p)
           (products s)\<rparr>"

definition deleteProduct :: "string \<Rightarrow> Store \<Rightarrow> Store" where
  "deleteProduct productId s =
     s\<lparr>products := filter (\<lambda>p. product_id p \<noteq> productId) (products s)\<rparr>"

definition getProductById :: "string \<Rightarrow> Store \<Rightarrow> Product option" where
  "getProductById productId s = find (\<lambda>p. product_id p = productId) (products s)"

subsection \<open>Cart logic (lines 870-895)\<close>

text \<open>\<^verbatim>\<open>{ ...product, quantity }\<close>\<close>

definition cartLine :: "Product \<Rightarrow> number \<Rightarrow> CartItem" where
  "cartLine product q =
     \<lparr>product_id = product_id product, product_name = product_name product,
      price = price product, image = image product,
      description = description product, quantity = q\<rparr>"

text \<open>
  The updater \<^verbatim>\<open>addToCart\<close> hands to \<^verbatim>\<open>setCart\<close>. \<^verbatim>\<open>find\<close> returns the first line
  with the product's id or \<^verbatim>\<open>undefined\<close>; a line is an object, so the test
  \<^verbatim>\<open>if (existingItem)\<close> holds exactly when a line was found.
\<close>

definition addToCart_cart :: "Product \<Rightarrow> number \<Rightarrow> CartItem list \<Rightarrow> CartItem list" where
  "addToCart_cart product q prevCart =
     (case find (\<lambda>item. product_id item = product_id product) prevCart of
        Some existingItem \<Rightarrow>
          map (\<lambda>item. if product_id item = product_id product
                       then item\<lparr>quantity := quantity item + q\<rparr> else item) prevCart
      | None \<Rightarrow> prevCart @ [cartLine product q])"

definition addToCart :: "Product \<Rightarrow> number \<Rightarrow> Store \<Rightarrow> Store" where
  "addToCart product q s = s\<lparr>cart := addToCart_cart product q (cart s)\<rparr>"

definition removeFromCart :: "string \<Rightarrow> Store \<Rightarrow> Store" where
  "removeFromCart productId s =
     s\<lparr>cart := filter (\<lambda>item. product_id item \<noteq> productId) (cart s)\<rparr>"

definition updateCartQuantity :: "string \<Rightarrow> number \<Rightarrow> Store \<Rightarrow> Store" where
  "updateCartQuantity productId q s =
     (if q \<le> 0 then removeFromCart productId s
      else s\<lparr>cart :=
             map (\<lambda>item. if product_id item = productId then item\<lparr>quantity := q\<rparr> else item)
               (cart s)\<rparr>)"

definition clearCart :: "Store \<Rightarrow> Store" where
  "clearCart s = s\<lparr>cart := []\<rparr>"

text \<open>\<^verbatim>\<open>reduce(f, 0)\<close> is a left fold from 0.\<close>

definition itemsSubtotal :: "CartItem list \<Rightarrow> number" where
  "itemsSubtotal cartItems =
     foldl (\<lambda>total item. total + price item * quantity item) 0 cartItems"


definition cartItemCount :: "Store \<Rightarrow> number" where
  "cartItemCount s = foldl (\<lambda>count item. count + quantity item) 0 (cart s)"

subsection \<open>Order logic (lines 898-921)\<close>

text \<open>
  \<open>now_id\<close> is the clock reading that becomes the order's id, \<open>now_ts\<close> the later
  reading that becomes its timestamp.
\<close>

definition newOrder :: "nat \<Rightarrow> nat \<Rightarrow> CustomerInfo \<Rightarrow> CartItem list \<Rightarrow> Order" where
  "newOrder now_id now_ts info cartItems =
     \<lparr>order_id = toString now_id, customerInfo = info, items = cartItems,
      totalAmount = itemsSubtotal cartItems + SHIPPING_COST,
      paymentMethod = Cash_on_Delivery, timestamp = now_ts, status = Pending\<rparr>"

definition placeOrder ::
  "nat \<Rightarrow> nat \<Rightarrow> CustomerInfo \<Rightarrow> CartItem list \<Rightarrow> Store \<Rightarrow> string option \<times> Store" where
  "placeOrder now_id now_ts info cartItems s =
     (if length cartItems = 0 then (None, s)
      else (Some (order_id (newOrder now_id now_ts info cartItems)),
            clearCart (s\<lparr>orders := orders s @ [newOrder now_id now_ts info cartItems]\<rparr>)))"

text \<open>The earlier revision of the same function, lines 138-152: no shipping cost.\<close>

definition newOrder_138 :: "nat \<Rightarrow> nat \<Rightarrow> CustomerInfo \<Rightarrow> CartItem list \<Rightarrow> Order" where
  "newOrder_138 now_id now_ts info cartItems =
     \<lparr>order_id = toString now_id, customerInfo = info, items = cartItems,
      totalAmount = itemsSubtotal cartItems,
      paymentMethod = Cash_on_Delivery, timestamp = now_ts, status = Pending\<rparr>"

definition placeOrder_138 ::
  "nat \<Rightarrow> nat \<Rightarrow> CustomerInfo \<Rightarrow> CartItem list \<Rightarrow> Store \<Rightarrow> string option \<times> Store" where
  "placeOrder_138 now_id now_ts info cartItems s =
     (if length cartItems = 0 then (None, s)
      else (Some (order_id (newOrder_138 now_id now_ts info cartItems)),
            clearCart (s\<lparr>orders := orders s @ [newOrder_138 now_id now_ts info cartItems]\<rparr>)))"

definition updateOrderStatus :: "string \<Rightarrow> OrderStatus \<Rightarrow> Store \<Rightarrow> Store" where
  "updateOrderStatus orderId st s =
     s\<lparr>orders := map (\<lambda>ord. if order_id ord = orderId then ord\<lparr>status := st\<rparr> else ord) (orders s)\<rparr>"


subsection \<open>Calls, renders and sequences of renders\<close>

text \<open>One constructor for each mutator the provider exposes, with its arguments.\<close>

datatype Op =
    Login string string
  | Logout
  | AddProduct nat ProductData
  | EditProduct Product
  | DeleteProduct string
  | AddToCart Product number
  | RemoveFromCart string
  | UpdateCartQuantity string number
  | ClearCart
  | PlaceOrder nat nat CustomerInfo "CartItem list"
  | UpdateOrderStatus string OrderStatus

text \<open>The store of the next render when the call is the only one made from a render.\<close>

fun apply_op :: "Store \<Rightarrow> Op \<Rightarrow> Store" where
  "apply_op s (Login email pass) = snd (login email pass s)"
| "apply_op s Logout = logout s"
| "apply_op s (AddProduct now productData) = addProduct now productData s"
| "apply_op s (EditProduct p) = editProduct p s"
| "apply_op s (DeleteProduct productId) = deleteProduct productId s"
| "apply_op s (AddToCart p q) = addToCart p q s"
| "apply_op s (RemoveFromCart productId) = removeFromCart productId s"
| "apply_op s (UpdateCartQuantity productId q) = updateCartQuantity productId q s"
| "apply_op s ClearCart = clearCart s"
| "apply_op s (PlaceOrder now_id now_ts info cartItems) =
     snd (placeOrder now_id now_ts info cartItems s)"
| "apply_op s (UpdateOrderStatus orderId st) = updateOrderStatus orderId st s"

text \<open>
  The setter of \<^verbatim>\<open>useLocalStorage\<close> (lines 790-794):
  \<^verbatim>\<open>value instanceof Function ? value(storedValue) : value\<close>, with \<^verbatim>\<open>storedValue\<close> the
  value of the render that created the closure. A call therefore computes the new value
  of each cell it sets from the store \<open>captured\<close> by its render, and overwrites what an
  earlier call from the same render has set for that cell.
\<close>

datatype Cell = IsAdminCell | ProductsCell | CartCell | OrdersCell

text \<open>The cells whose setter a call invokes, in the order of the calls.\<close>

fun written :: "Store \<Rightarrow> Op \<Rightarrow> Cell list" where
  "written s (Login email pass) = (if fst (login email pass s) then [IsAdminCell] else [])"
| "written s Logout = [IsAdminCell]"
| "written s (AddProduct now productData) = [ProductsCell]"
| "written s (EditProduct p) = [ProductsCell]"
| "written s (DeleteProduct productId) = [ProductsCell]"
| "written s (AddToCart p q) = [CartCell]"
| "written s (RemoveFromCart productId) = [CartCell]"
| "written s (UpdateCartQuantity productId q) = [CartCell]"
| "written s ClearCart = [CartCell]"
| "written s (PlaceOrder now_id now_ts info cartItems) =
     (if length cartItems = 0 then [] else [OrdersCell, CartCell])"
| "written s (UpdateOrderStatus orderId st) = [OrdersCell]"

fun write_cell :: "Store \<Rightarrow> Store \<Rightarrow> Cell \<Rightarrow> Store" where
  "write_cell new pending IsAdminCell = pending\<lparr>isAdmin := isAdmin new\<rparr>"
| "write_cell new pending ProductsCell = pending\<lparr>products := products new\<rparr>"
| "write_cell new pending CartCell = pending\<lparr>cart := cart new\<rparr>"
| "write_cell new pending OrdersCell = pending\<lparr>orders := orders new\<rparr>"

text \<open>
  One call made from a render that captured \<open>captured\<close>, when the calls made before it
  from the same render have left \<open>pending\<close> for the next render.
\<close>

definition call :: "Store \<Rightarrow> Store \<Rightarrow> Op \<Rightarrow> Store" where
  "call captured pending op =
     foldl (write_cell (apply_op captured op)) pending (written captured op)"

text \<open>The store of the next render after the calls \<open>ops\<close> made from one render.\<close>

definition render :: "Store \<Rightarrow> Op list \<Rightarrow> Store" where
  "render s ops = foldl (call s) s ops"

text \<open>A session: the calls made from the first render, from the second, and so on.\<close>

definition run :: "Store \<Rightarrow> Op list list \<Rightarrow> Store" where
  "run s renders = foldl render s renders"

subsection \<open>Predicates on carts and calls\<close>


text \<open>The ids of the cart lines are pairwise distinct.\<close>

definition ids_distinct :: "CartItem list \<Rightarrow> bool" where
  "ids_distinct c = distinct (map product_id c)"


subsection \<open>Example values\<close>

text \<open>Concrete inputs on which the theorems below are instantiated.\<close>

definition wallet :: Product where
  "wallet = initialProducts ! 0"

definition smartwatch :: Product where
  "smartwatch = initialProducts ! 1"

text \<open>A product whose price the admin entered as 0.1: \<^verbatim>\<open>parseFloat("0.1")\<close>.\<close>

definition sticker :: Product where
  "sticker = \<lparr>product_id = ''7'', product_name = ''Sticker'', price = round64 (1 / 10),
     image = [], description = ''A sticker''\<rparr>"

definition exampleCustomer :: CustomerInfo where
  "exampleCustomer = \<lparr>customer_name = ''Ali'', phone = ''03001234567'', address = ''Lahore''\<rparr>"

definition exampleCart :: "CartItem list" where
  "exampleCart = [cartLine wallet (Num 2), cartLine smartwatch (Num 1)]"

definition exampleOrders :: "Order list" where
  "exampleOrders =
     [\<lparr>order_id = ''17'', customerInfo = exampleCustomer, items = [], totalAmount = Num 5250,
       paymentMethod = Cash_on_Delivery, timestamp = 17, status = Pending\<rparr>,
      \<lparr>order_id = ''18'', customerInfo = exampleCustomer, items = [], totalAmount = Num 15250,
       paymentMethod = Cash_on_Delivery, timestamp = 18, status = Shipped\<rparr>]"

definition mug :: ProductData where
  "mug = \<lparr>data_name = ''Mug'', data_price = Num 500, data_image = [],
     data_description = ''A mug''\<rparr>"

definition cup :: ProductData where
  "cup = \<lparr>data_name = ''Cup'', data_price = Num 400, data_image = [],
     data_description = ''A cup''\<rparr>"

section \<open>Helper lemmas\<close>

subsection \<open>Rounding to a double\<close>

lemmas number_ops = zero_number_def one_number_def plus_number_def times_number_def
  less_eq_number_def less_number_def

lemma expo_down_le: "expo_down e x \<le> e"
proof (induction e x rule: expo_down.induct)
  case (1 e x)
  then show ?case
    by (subst expo_down.simps) (auto split: if_splits)
qed




lemma round_half_even_of_int: "round_half_even (of_int n) = n"
  by (simp add: round_half_even_def)


text \<open>Rounding a given rational, one step at a time.\<close>

lemma round64_eval:
  assumes "quantum_exp \<bar>x\<bar> = e" and "round_half_even (\<bar>x\<bar> / 2 powi e) = m"
    and "\<not> (e = 971 \<and> 2 ^ 53 \<le> m)"
  shows "round64 x = Num (sgn x * of_int m * 2 powi e)"
  using assms by (simp add: round64_def Let_def)

lemma floor_rat_numeral:
  "\<lfloor>(numeral a :: rat) / numeral b\<rfloor> = numeral a div numeral b"
  using floor_divide_of_int_eq [of "numeral a" "numeral b", where ?'a = rat] by simp

lemmas ev_exp = quantum_exp_def expo_up.simps expo_down.simps

lemmas ev_rhe = round_half_even_def floor_rat_numeral

text \<open>Every integer up to \<open>2\<^sup>5\<^sup>3\<close> in magnitude is a double.\<close>

lemma round64_of_int:
  assumes "\<bar>n\<bar> \<le> 2 ^ 53"
  shows "round64 (of_int n) = Num (of_int n)"
proof (cases "\<bar>n\<bar> = 2 ^ 53")
  case True
  have a: "\<bar>rat_of_int n\<bar> = 2 ^ 53"
    using True by (metis of_int_abs of_int_numeral of_int_power)
  have "round64 (of_int n) = Num (sgn (of_int n) * of_int (2 ^ 52) * 2 powi 1)"
    by (rule round64_eval) (simp_all add: a ev_exp ev_rhe)
  also have "\<dots> = Num (sgn (of_int n) * \<bar>of_int n\<bar>)"
    by (simp add: a)
  finally show ?thesis
    by (simp add: sgn_mult_abs)
next
  case False
  with assms have lt: "\<bar>n\<bar> < 2 ^ 53" by simp
  define e where "e = expo_down 0 \<bar>rat_of_int n\<bar>"
  define k where "k = nat (- e)"
  have e0: "e \<le> 0" unfolding e_def by (rule expo_down_le)
  have "\<bar>rat_of_int n\<bar> < 2 ^ 53"
    using lt by (metis of_int_abs of_int_less_iff of_int_numeral of_int_power)
  then have q: "quantum_exp \<bar>rat_of_int n\<bar> = e"
    by (simp add: quantum_exp_def e_def)
  have p: "(2::rat) powi e = 1 / 2 ^ k"
    using e0 by (simp add: power_int_def k_def field_simps)
  have "\<bar>rat_of_int n\<bar> / 2 powi e = of_int (\<bar>n\<bar> * 2 ^ k)"
    by (simp add: p)
  then have m: "round_half_even (\<bar>rat_of_int n\<bar> / 2 powi e) = \<bar>n\<bar> * 2 ^ k"
    by (simp only: round_half_even_of_int)
  have "round64 (of_int n) = Num (sgn (of_int n) * of_int (\<bar>n\<bar> * 2 ^ k) * 2 powi e)"
    using q m e0 by (intro round64_eval) auto
  also have "\<dots> = Num (sgn (of_int n) * \<bar>of_int n\<bar>)"
    by (simp add: p)
  finally show ?thesis
    by (simp add: sgn_mult_abs)
qed

lemma round64_numeral: "numeral k \<le> (2 ^ 53 :: int) \<Longrightarrow> round64 (numeral k) = Num (numeral k)"
  using round64_of_int [of "numeral k"] by simp

lemma round64_0: "round64 0 = Num 0"
  using round64_of_int [of 0] by simp

lemma round64_1: "round64 1 = Num 1"
  using round64_of_int [of 1] by simp

lemma add_int_exact:
  "\<bar>a + b\<bar> \<le> 2 ^ 53 \<Longrightarrow> Num (of_int a) + Num (of_int b) = Num (of_int (a + b))"
  using round64_of_int [of "a + b"] by (simp add: plus_number_def)

lemma mul_int_exact:
  "\<bar>a * b\<bar> \<le> 2 ^ 53 \<Longrightarrow> Num (of_int a) * Num (of_int b) = Num (of_int (a * b))"
  using round64_of_int [of "a * b"] by (simp add: times_number_def)

lemma integral_Num: "integral x \<Longrightarrow> x = Num (of_int (int_of x))"
  by (cases x) (simp_all add: integral_def int_of_def)

lemma integral_of_int: "integral (Num (of_int n))" and int_of_of_int: "int_of (Num (of_int n)) = n"
  by (simp_all add: integral_def int_of_def)



text \<open>What is at most 0 is not at least 1, and what is above 0 is not at most 0.\<close>

lemma le_zero_not_ge_one: "(q::number) \<le> 0 \<Longrightarrow> \<not> 1 \<le> q"
  by (cases q) (simp_all add: number_ops)

lemma pos_not_le_zero: "(0::number) < q \<Longrightarrow> \<not> q \<le> 0"
  by (cases q) (simp_all add: number_ops)

text \<open>The special values, as IEEE 754 and the language define the operators on them.\<close>

lemma number_specials:
  "NaN + Num 1 = NaN" "Num 1 + NaN = NaN" "PosInf + NegInf = NaN" "PosInf + Num 1 = PosInf"
  "NegInf + Num 1 = NegInf" "Num 0 * PosInf = NaN" "Num (- 2) * PosInf = NegInf"
  "NegInf * NegInf = PosInf" "\<not> NaN \<le> NaN" "\<not> NaN \<le> (0::number)" "\<not> (0::number) \<le> NaN"
  "NegInf \<le> (0::number)" "\<not> PosInf \<le> (0::number)" "Num (- 1) \<le> (0::number)"
  "\<not> Num (1 / 2) \<le> (0::number)" "\<not> (1::number) \<le> Num (1 / 2)" "\<not> NaN < NaN"
  "(0::number) < PosInf"
  by (simp_all add: number_ops)

text \<open>
  The ends of the range: half of the least positive double is a tie and goes to 0,
  \<open>(2\<^sup>5\<^sup>3 - 1) * 2\<^sup>9\<^sup>7\<^sup>1\<close> is the largest double, and \<open>2\<^sup>1\<^sup>0\<^sup>2\<^sup>4\<close> overflows.
\<close>

lemma floor_rat_one_numeral: "\<lfloor>(1 :: rat) / numeral b\<rfloor> = 1 div numeral b"
  using floor_divide_of_int_eq [of 1 "numeral b", where ?'a = rat] by simp

lemma round64_underflow: "round64 (1 / 2 ^ 1075) = Num 0"
proof -
  have "round64 (1 / 2 ^ 1075) = Num (sgn (1 / 2 ^ 1075) * of_int 0 * 2 powi (- 1074))"
    by (rule round64_eval) (simp_all add: ev_exp ev_rhe floor_rat_one_numeral)
  then show ?thesis by simp
qed

lemma round64_largest: "round64 ((2 ^ 53 - 1) * 2 ^ 971) = Num ((2 ^ 53 - 1) * 2 ^ 971)"
proof -
  have "round64 ((2 ^ 53 - 1) * 2 ^ 971)
        = Num (sgn ((2 ^ 53 - 1) * 2 ^ 971) * of_int (2 ^ 53 - 1) * 2 powi 971)"
    by (rule round64_eval) (simp_all add: ev_exp ev_rhe)
  then show ?thesis by simp
qed

lemma round64_overflow: "round64 (2 ^ 1024) = PosInf"
proof -
  have e: "quantum_exp \<bar>2 ^ 1024\<bar> = 971"
    by (simp add: ev_exp)
  have m: "round_half_even (\<bar>2 ^ 1024\<bar> / 2 powi 971) = 2 ^ 53"
    by (simp add: ev_rhe)
  show ?thesis
    by (simp only: round64_def Let_def e m) simp
qed

text \<open>
  The doubles the examples need: \<^verbatim>\<open>0.1\<close>, \<^verbatim>\<open>0.1 * 3\<close> (a tie, which goes to the even
  neighbour \<^verbatim>\<open>0.30000000000000004\<close>) and \<^verbatim>\<open>2 ** 53 + 1\<close> (a tie again).
\<close>

lemma tenth: "round64 (1 / 10) = Num (3602879701896397 / 36028797018963968)"
proof -
  have "round64 (1 / 10) = Num (sgn (1 / 10) * of_int 7205759403792794 * 2 powi (- 56))"
    by (rule round64_eval) (simp_all add: ev_exp ev_rhe)
  then show ?thesis by simp
qed

lemma three_tenths:
  "round64 (10808639105689191 / 36028797018963968) = Num (1351079888211149 / 4503599627370496)"
proof -
  have "round64 (10808639105689191 / 36028797018963968)
        = Num (sgn (10808639105689191 / 36028797018963968) * of_int 5404319552844596
               * 2 powi (- 54))"
    by (rule round64_eval) (simp_all add: ev_exp ev_rhe)
  then show ?thesis by simp
qed

lemma saturated: "round64 9007199254740993 = Num 9007199254740992"
proof -
  have "round64 9007199254740993
        = Num (sgn 9007199254740993 * of_int 4503599627370496 * 2 powi 1)"
    by (rule round64_eval) (simp_all add: ev_exp ev_rhe)
  then show ?thesis by simp
qed

lemma three_tenths_double:
  "round64 (1351079888211149 / 4503599627370496) = Num (1351079888211149 / 4503599627370496)"
proof -
  have "round64 (1351079888211149 / 4503599627370496)
        = Num (sgn (1351079888211149 / 4503599627370496) * of_int 5404319552844596
               * 2 powi (- 54))"
    by (rule round64_eval) (simp_all add: ev_exp ev_rhe)
  then show ?thesis by simp
qed

lemma three_tenths_and_shipping:
  "round64 (1127250986730835149 / 4503599627370496) = Num (4403324166917325 / 17592186044416)"
proof -
  have "round64 (1127250986730835149 / 4503599627370496)
        = Num (sgn (1127250986730835149 / 4503599627370496) * of_int 8806648333834650
               * 2 powi (- 45))"
    by (rule round64_eval) (simp_all add: ev_exp ev_rhe)
  then show ?thesis by simp
qed

subsection \<open>A left fold over integers within \<open>2\<^sup>5\<^sup>3\<close> is the exact sum\<close>

lemma sum_list_abs_nonneg: "0 \<le> (\<Sum>x\<leftarrow>xs. \<bar>g x :: int\<bar>)"
  by (induction xs) simp_all

lemma elem_le_sum_list_abs: "x \<in> set xs \<Longrightarrow> \<bar>g x :: int\<bar> \<le> (\<Sum>x\<leftarrow>xs. \<bar>g x\<bar>)"
proof (induction xs)
  case Nil
  then show ?case by simp
next
  case (Cons a xs)
  with sum_list_abs_nonneg [of g xs] show ?case by auto
qed

lemma abs_sum_list_le: "\<bar>\<Sum>x\<leftarrow>xs. g x :: int\<bar> \<le> (\<Sum>x\<leftarrow>xs. \<bar>g x\<bar>)"
  by (induction xs) auto

lemma fold_add_exact:
  assumes "\<forall>x\<in>set xs. integral (f x)"
    and "\<bar>a\<bar> + (\<Sum>x\<leftarrow>xs. \<bar>int_of (f x)\<bar>) \<le> 2 ^ 53"
  shows "foldl (\<lambda>acc x. acc + f x) (Num (of_int a)) xs
         = Num (of_int (a + (\<Sum>x\<leftarrow>xs. int_of (f x))))"
  using assms
proof (induction xs arbitrary: a)
  case Nil
  then show ?case by simp
next
  case (Cons x xs)
  from Cons.prems have fx: "f x = Num (of_int (int_of (f x)))"
    by (simp add: integral_Num)
  from Cons.prems sum_list_abs_nonneg [of "\<lambda>x. int_of (f x)" xs]
  have b: "\<bar>a + int_of (f x)\<bar> \<le> 2 ^ 53"
    by simp
  have step: "Num (of_int a) + f x = Num (of_int (a + int_of (f x)))"
    by (subst fx) (rule add_int_exact [OF b])
  from Cons.prems have "\<bar>a + int_of (f x)\<bar> + (\<Sum>x\<leftarrow>xs. \<bar>int_of (f x)\<bar>) \<le> 2 ^ 53"
    by simp
  with Cons.IH [of "a + int_of (f x)"] Cons.prems show ?case
    by (simp add: step add.assoc)
qed

lemma fold_add_exact_0:
  assumes "\<forall>x\<in>set xs. integral (f x)" and "(\<Sum>x\<leftarrow>xs. \<bar>int_of (f x)\<bar>) \<le> 2 ^ 53"
  shows "foldl (\<lambda>acc x. acc + f x) 0 xs = Num (of_int (\<Sum>x\<leftarrow>xs. int_of (f x)))"
  using fold_add_exact [of xs f 0] assms by (simp add: zero_number_def)

lemma subtotal_exact:
  assumes "\<forall>item\<in>set c. integral (price item) \<and> integral (quantity item)"
    and "(\<Sum>item\<leftarrow>c. \<bar>int_of (price item) * int_of (quantity item)\<bar>) \<le> 2 ^ 53"
  shows "itemsSubtotal c = Num (of_int (\<Sum>item\<leftarrow>c. int_of (price item) * int_of (quantity item)))"
proof -
  have tm: "price item * quantity item
              = Num (of_int (int_of (price item) * int_of (quantity item)))"
    if "item \<in> set c" for item
  proof -
    from that assms(1) have "price item = Num (of_int (int_of (price item)))"
      and "quantity item = Num (of_int (int_of (quantity item)))"
      by (simp_all add: integral_Num)
    moreover from elem_le_sum_list_abs [OF that, of "\<lambda>item. int_of (price item) * int_of (quantity item)"]
      assms(2)
    have "\<bar>int_of (price item) * int_of (quantity item)\<bar> \<le> 2 ^ 53"
      by simp
    ultimately show ?thesis
      using mul_int_exact by metis
  qed
  then have i: "\<forall>item\<in>set c. integral (price item * quantity item)"
    by (simp add: integral_of_int del: of_int_mult)
  from tm have v: "map (\<lambda>item. int_of (price item * quantity item)) c
                     = map (\<lambda>item. int_of (price item) * int_of (quantity item)) c"
    by (simp add: int_of_of_int del: of_int_mult)
  from v have va: "map (\<lambda>item. \<bar>int_of (price item * quantity item)\<bar>) c
                     = map (\<lambda>item. \<bar>int_of (price item) * int_of (quantity item)\<bar>) c"
    by simp
  from fold_add_exact_0 [of c "\<lambda>item. price item * quantity item"] i assms(2)
  show ?thesis
    by (simp add: itemsSubtotal_def v va)
qed

subsection \<open>Decimal rendering is injective\<close>

lemma digit_inj: "a < 10 \<Longrightarrow> b < 10 \<Longrightarrow> digit a = digit b \<Longrightarrow> a = b"
proof -
  assume a: "a < 10" and b: "b < 10" and e: "digit a = digit b"
  have d: "distinct ''0123456789''" by simp
  have l: "length ''0123456789'' = 10" by simp
  from e show "a = b" unfolding digit_def
    using nth_eq_iff_index_eq [OF d, of a b] a b l by metis
qed

lemma toString_nonempty: "toString n \<noteq> []"
  by (subst toString.simps) simp

lemma toString_inj: "toString n = toString m \<Longrightarrow> n = m"
proof (induction n arbitrary: m rule: toString.induct)
  case (1 n)
  show ?case
  proof (cases "n < 10")
    case True
    note n = this
    show ?thesis
    proof (cases "m < 10")
      case True
      with n "1.prems" show ?thesis
        by (simp add: toString.simps [of n] toString.simps [of m] digit_inj)
    next
      case False
      with n "1.prems" show ?thesis
        using toString_nonempty [of "m div 10"]
        by (simp add: toString.simps [of n] toString.simps [of m])
    qed
  next
    case False
    note n = this
    show ?thesis
    proof (cases "m < 10")
      case True
      with n "1.prems" show ?thesis
        using toString_nonempty [of "n div 10"]
        by (simp add: toString.simps [of n] toString.simps [of m])
    next
      case False
      with n "1.prems" have eq: "toString (n div 10) = toString (m div 10)"
        and d: "digit (n mod 10) = digit (m mod 10)"
        by (simp_all add: toString.simps [of n] toString.simps [of m])
      from "1.IH" [OF n eq] have "n div 10 = m div 10" .
      moreover from d have "n mod 10 = m mod 10"
        by (intro digit_inj) simp_all
      ultimately show ?thesis
        by (metis div_mult_mod_eq)
    qed
  qed
qed

subsection \<open>The cart as a list of lines keyed by id\<close>

lemma find_ids_None:
  "find (\<lambda>item. product_id item = k) c = None \<longleftrightarrow> k \<notin> set (map product_id c)"
  by (induction c) auto

lemma addToCart_cart_present:
  "k = product_id p \<Longrightarrow> k \<in> set (map product_id c) \<Longrightarrow>
   addToCart_cart p q c =
     map (\<lambda>item. if product_id item = k then item\<lparr>quantity := quantity item + q\<rparr> else item) c"
  using find_ids_None [of k c]
  by (cases "find (\<lambda>item. product_id item = k) c") (simp_all add: addToCart_cart_def)

lemma addToCart_cart_absent:
  "product_id p \<notin> set (map product_id c) \<Longrightarrow> addToCart_cart p q c = c @ [cartLine p q]"
  using find_ids_None [of "product_id p" c]
  by (simp add: addToCart_cart_def)

lemma map_ids_bump:
  "map product_id
     (map (\<lambda>item. if product_id item = k then item\<lparr>quantity := f item\<rparr> else item) c)
   = map product_id c"
  by (induction c) auto

lemma map_bump_absent:
  "k \<notin> set (map product_id c) \<Longrightarrow>
   map (\<lambda>item. if product_id item = k then item\<lparr>quantity := f item\<rparr> else item) c = c"
  by (induction c) auto

lemma ids_addToCart_cart:
  "map product_id (addToCart_cart p q c) =
     (if product_id p \<in> set (map product_id c) then map product_id c
      else map product_id c @ [product_id p])"
proof (cases "product_id p \<in> set (map product_id c)")
  case True
  then show ?thesis
    using addToCart_cart_present [OF refl True, of q] map_ids_bump [of "product_id p" _ c]
    by simp
next
  case False
  then show ?thesis
    by (simp add: addToCart_cart_absent cartLine_def)
qed

lemma ids_distinct_addToCart_cart:
  "ids_distinct c \<Longrightarrow> ids_distinct (addToCart_cart p q c)"
  by (simp add: ids_distinct_def ids_addToCart_cart)

lemma length_filter_id_distinct:
  "distinct (map f xs) \<Longrightarrow> length (filter (\<lambda>x. f x = k) xs) \<le> 1"
proof (induction xs)
  case Nil
  show ?case by simp
next
  case (Cons a xs)
  show ?case
  proof (cases "f a = k")
    case True
    from Cons.prems have "f a \<notin> f ` set xs" by simp
    with True have "\<forall>x\<in>set xs. f x \<noteq> k" by (metis imageI)
    then have "filter (\<lambda>x. f x = k) xs = []"
      by (simp add: filter_empty_conv)
    with True show ?thesis by simp
  next
    case False
    with Cons show ?thesis by simp
  qed
qed

lemma length_filter_other:
  "distinct (map f xs) \<Longrightarrow> length xs \<le> length (filter (\<lambda>x. f x \<noteq> k) xs) + 1"
  using sum_length_filter_compl [of "\<lambda>x. f x = k" xs] length_filter_id_distinct [of f xs k]
  by (simp add: comp_def)

text \<open>
  Adding an integer quantity to the one line with the id, in a cart of integer
  quantities: the quantities stay integers and their sum grows by the quantity added.
\<close>

lemma bump_exact:
  assumes "distinct (map product_id c)"
    and "\<forall>item\<in>set c. integral (quantity item)"
    and "integral q"
    and "(\<Sum>item\<leftarrow>c. \<bar>int_of (quantity item)\<bar>) + \<bar>int_of q\<bar> \<le> 2 ^ 53"
    and "k \<in> set (map product_id c)"
  shows "(\<forall>item\<in>set (map (\<lambda>item. if product_id item = k
                                    then item\<lparr>quantity := quantity item + q\<rparr> else item) c).
            integral (quantity item))
    \<and> (\<Sum>item\<leftarrow>map (\<lambda>item. if product_id item = k
                             then item\<lparr>quantity := quantity item + q\<rparr> else item) c.
          \<bar>int_of (quantity item)\<bar>)
        \<le> (\<Sum>item\<leftarrow>c. \<bar>int_of (quantity item)\<bar>) + \<bar>int_of q\<bar>
    \<and> (\<Sum>item\<leftarrow>map (\<lambda>item. if product_id item = k
                             then item\<lparr>quantity := quantity item + q\<rparr> else item) c.
          int_of (quantity item))
        = (\<Sum>item\<leftarrow>c. int_of (quantity item)) + int_of q"
  using assms
proof (induction c)
  case Nil
  then show ?case by simp
next
  case (Cons a c)
  show ?case
  proof (cases "product_id a = k")
    case True
    with Cons.prems have "k \<notin> set (map product_id c)" by auto
    note rest = map_bump_absent [OF this]
    from Cons.prems have qa: "quantity a = Num (of_int (int_of (quantity a)))"
      and q: "q = Num (of_int (int_of q))"
      by (simp_all add: integral_Num)
    from Cons.prems sum_list_abs_nonneg [of "\<lambda>item. int_of (quantity item)" c]
    have "\<bar>int_of (quantity a) + int_of q\<bar> \<le> 2 ^ 53"
      by simp
    from add_int_exact [OF this] qa q
    have new: "quantity a + q = Num (of_int (int_of (quantity a) + int_of q))"
      by simp
    have i: "integral (quantity a + q)"
      and v: "int_of (quantity a + q) = int_of (quantity a) + int_of q"
      by (simp_all only: new integral_of_int int_of_of_int)
    from Cons.prems True show ?thesis
      by (simp add: rest i v)
  next
    case False
    with Cons.prems have "k \<in> set (map product_id c)" by auto
    moreover from Cons.prems
    have "(\<Sum>item\<leftarrow>c. \<bar>int_of (quantity item)\<bar>) + \<bar>int_of q\<bar> \<le> 2 ^ 53"
      by simp
    ultimately show ?thesis
      using Cons.IH Cons.prems False by simp
  qed
qed

subsection \<open>Calls made from one render\<close>

lemma call_alone: "call s s op = apply_op s op"
  by (cases op)
    (simp_all add: call_def login_def logout_def addProduct_def editProduct_def
      deleteProduct_def addToCart_def removeFromCart_def updateCartQuantity_def clearCart_def
      placeOrder_def updateOrderStatus_def)

lemma render_alone: "render s [op] = apply_op s op"
  by (simp add: render_def call_alone)

lemma cart_call:
  "cart (call s pending op) = cart pending \<or> cart (call s pending op) = cart (apply_op s op)"
  by (cases op) (simp_all add: call_def)

lemma cart_calls:
  "cart (foldl (call s) pending ops) = cart pending
   \<or> (\<exists>op\<in>set ops. cart (foldl (call s) pending ops) = cart (apply_op s op))"
proof (induction ops arbitrary: pending)
  case Nil
  show ?case by simp
next
  case (Cons op ops)
  from Cons.IH [of "call s pending op"] cart_call [of s pending op]
  show ?case by auto
qed

lemma cart_render:
  "cart (render s ops) = cart s \<or> (\<exists>op\<in>set ops. cart (render s ops) = cart (apply_op s op))"
  unfolding render_def by (rule cart_calls)

lemma render_two_addToCart:
  "cart (render s [AddToCart p q, AddToCart p' q']) = cart (addToCart p' q' s)"
  by (simp add: render_def call_def)

subsection \<open>What every call preserves\<close>





text \<open>
  No call creates a second line with an id the cart already has, so every cart built
  from the empty cart has pairwise distinct ids.
\<close>

lemma ids_distinct_apply_op:
  assumes "ids_distinct (cart s)"
  shows "ids_distinct (cart (apply_op s op))"
proof (cases op)
  case (AddToCart p q)
  with assms show ?thesis
    by (simp add: addToCart_def ids_distinct_addToCart_cart)
next
  case (UpdateCartQuantity productId q)
  with assms show ?thesis
    by (simp add: updateCartQuantity_def removeFromCart_def ids_distinct_def
        distinct_map_filter map_ids_bump [unfolded map_map comp_def] comp_def)
next
  case (RemoveFromCart productId)
  with assms show ?thesis
    by (simp add: removeFromCart_def ids_distinct_def distinct_map_filter)
next
  case (PlaceOrder now_id now_ts info cartItems)
  with assms show ?thesis
    by (simp add: placeOrder_def clearCart_def ids_distinct_def)
qed (use assms in \<open>simp_all add: login_def logout_def addProduct_def editProduct_def
      deleteProduct_def clearCart_def updateOrderStatus_def ids_distinct_def\<close>)

lemma ids_distinct_render:
  assumes "ids_distinct (cart s)"
  shows "ids_distinct (cart (render s ops))"
  using cart_render [of s ops] assms ids_distinct_apply_op [of s]
  by auto

lemma ids_distinct_run:
  "ids_distinct (cart s) \<Longrightarrow> ids_distinct (cart (run s renders))"
  unfolding run_def
  by (induction renders arbitrary: s) (simp_all add: ids_distinct_render)

lemma ids_distinct_from_empty_cart:
  "cart s = [] \<Longrightarrow> ids_distinct (cart (run s renders))"
  by (rule ids_distinct_run) (simp add: ids_distinct_def)

lemmas example_defs = initialStore_def initialProducts_def wallet_def smartwatch_def
  sticker_def exampleCustomer_def exampleCart_def exampleOrders_def mug_def cup_def
  cartLine_def

lemmas number_eval = number_ops round64_numeral round64_0 round64_1

section \<open>The claims\<close>

subsection \<open>C6: the derived aggregates\<close>




subsection \<open>C2: placing an order with no items\<close>

text \<open>
  C2. For every customerInfo, \<open>placeOrder\<close> with an empty items list returns null and
  leaves the entire store (cart, orders, products, admin flag) unchanged. Both revisions
  of the function do.
\<close>

theorem placeOrder_empty:
  "placeOrder now_id now_ts info [] s = (None, s)
   \<and> placeOrder_138 now_id now_ts info [] s = (None, s)"
  by (simp add: placeOrder_def placeOrder_138_def)

theorem placeOrder_empty_witness:
  "placeOrder 1700000000000 1700000000001 exampleCustomer []
       (initialStore\<lparr>cart := exampleCart\<rparr>)
     = (None, initialStore\<lparr>cart := exampleCart\<rparr>)
   \<and> placeOrder_138 1700000000000 1700000000001 exampleCustomer []
       (initialStore\<lparr>cart := exampleCart\<rparr>)
     = (None, initialStore\<lparr>cart := exampleCart\<rparr>)"
  using placeOrder_empty [of 1700000000000 1700000000001 exampleCustomer
      "initialStore\<lparr>cart := exampleCart\<rparr>"]
  by simp

subsection \<open>C5: login\<close>

text \<open>
  C5. For every email and pass, \<open>login\<close> returns true and sets the admin-session flag
  to true if and only if the email equals the fixed admin email and the pass equals the
  fixed admin password; for every other pair it returns false and leaves the store, the
  session flag included, unchanged.
\<close>

theorem login_fixed_credentials:
  "(fst (login email pass s) \<longleftrightarrow> email = ADMIN_EMAIL \<and> pass = ADMIN_PASSWORD)
   \<and> (fst (login email pass s) \<longrightarrow> snd (login email pass s) = s\<lparr>isAdmin := True\<rparr>)
   \<and> (\<not> fst (login email pass s) \<longrightarrow> snd (login email pass s) = s)"
  by (simp add: login_def)

theorem login_fixed_credentials_witness:
  "login ''admin@example.com'' ''password123'' initialStore
     = (True, initialStore\<lparr>isAdmin := True\<rparr>)
   \<and> login ''admin@example.com'' ''password124'' initialStore = (False, initialStore)
   \<and> login ''Admin@example.com'' ''password123'' (initialStore\<lparr>isAdmin := True\<rparr>)
     = (False, initialStore\<lparr>isAdmin := True\<rparr>)"
  using login_fixed_credentials [of "''admin@example.com''" "''password123''" initialStore]
    login_fixed_credentials [of "''admin@example.com''" "''password124''" initialStore]
    login_fixed_credentials [of "''Admin@example.com''" "''password123''"
      "initialStore\<lparr>isAdmin := True\<rparr>"]
  by (simp add: ADMIN_EMAIL_def ADMIN_PASSWORD_def prod_eq_iff)

subsection \<open>C3: adding to the cart merges by id\<close>

text \<open>
  C3 as it is written fails for two calls made from the same render: the setter applies
  each updater to the cart the render captured, so the second call overwrites the
  first. The wallet added once and then twice, from one render, leaves one line with
  quantity 2, not 3.
\<close>

theorem addToCart_merge_or_append_counterexample:
  "cart (render initialStore [AddToCart wallet (Num 1), AddToCart wallet (Num 2)])
     = [cartLine wallet (Num 2)]
   \<and> quantity (cartLine wallet (Num 2)) = Num 2
   \<and> Num 1 + Num 2 = Num 3"
  by (simp add: render_def call_def example_defs addToCart_def addToCart_cart_def number_eval)

text \<open>
  C3, amended. For every cart, product \<open>p\<close> and quantity \<open>q\<close>: if the cart already
  contains a line with the id of \<open>p\<close>, \<open>addToCart\<close> replaces the quantity of every such
  line by its old quantity plus \<open>q\<close> (the sum of doubles), leaves the other lines as
  they are and adds no line; otherwise it appends one new line, which is \<open>p\<close> with
  quantity \<open>q\<close>. A cart whose ids are pairwise distinct stays so. Adding the same
  product twice, the second call made from the render that follows the first, adds no
  line the second time, and on a cart without the product it yields one line whose
  quantity is the sum; two calls made from one render add no duplicate line either.
  Nothing but the cart changes.
\<close>

theorem addToCart_merge_or_append:
  "(product_id p \<in> set (map product_id (cart s)) \<longrightarrow>
      length (cart (addToCart p q s)) = length (cart s)
      \<and> (\<forall>i < length (cart s).
            cart (addToCart p q s) ! i =
              (if product_id (cart s ! i) = product_id p
               then (cart s ! i)\<lparr>quantity := quantity (cart s ! i) + q\<rparr>
               else cart s ! i)))
   \<and> (product_id p \<notin> set (map product_id (cart s)) \<longrightarrow>
      cart (addToCart p q s)
        = cart s @ [\<lparr>product_id = product_id p, product_name = product_name p,
                     price = price p, image = image p, description = description p,
                     quantity = q\<rparr>])
   \<and> (ids_distinct (cart s) \<longrightarrow> ids_distinct (cart (addToCart p q s)))
   \<and> map product_id (cart (run s [[AddToCart p q], [AddToCart p q']]))
       = map product_id (cart (addToCart p q s))
   \<and> (product_id p \<notin> set (map product_id (cart s)) \<longrightarrow>
      cart (run s [[AddToCart p q], [AddToCart p q']])
        = cart s @ [\<lparr>product_id = product_id p, product_name = product_name p,
                     price = price p, image = image p, description = description p,
                     quantity = q + q'\<rparr>])
   \<and> map product_id (cart (render s [AddToCart p q, AddToCart p q']))
       = map product_id (cart (addToCart p q s))
   \<and> isAdmin (addToCart p q s) = isAdmin s
   \<and> products (addToCart p q s) = products s
   \<and> orders (addToCart p q s) = orders s"
proof (intro conjI impI)
  assume "product_id p \<in> set (map product_id (cart s))"
  note eq = addToCart_cart_present [OF refl this, of q]
  show "length (cart (addToCart p q s)) = length (cart s)"
    by (simp add: addToCart_def eq)
  show "\<forall>i < length (cart s).
            cart (addToCart p q s) ! i =
              (if product_id (cart s ! i) = product_id p
               then (cart s ! i)\<lparr>quantity := quantity (cart s ! i) + q\<rparr>
               else cart s ! i)"
    by (simp add: addToCart_def eq)
next
  assume "product_id p \<notin> set (map product_id (cart s))"
  then show "cart (addToCart p q s)
        = cart s @ [\<lparr>product_id = product_id p, product_name = product_name p,
                     price = price p, image = image p, description = description p,
                     quantity = q\<rparr>]"
    by (simp add: addToCart_def addToCart_cart_absent cartLine_def)
next
  assume "ids_distinct (cart s)"
  then show "ids_distinct (cart (addToCart p q s))"
    by (simp add: addToCart_def ids_distinct_addToCart_cart)
next
  show "map product_id (cart (run s [[AddToCart p q], [AddToCart p q']]))
       = map product_id (cart (addToCart p q s))"
    by (simp add: run_def render_alone addToCart_def ids_addToCart_cart)
next
  assume a: "product_id p \<notin> set (map product_id (cart s))"
  have b: "product_id p \<in> set (map product_id (cart s @ [cartLine p q]))"
    by (simp add: cartLine_def)
  have "addToCart_cart p q' (addToCart_cart p q (cart s))
        = map (\<lambda>item. if product_id item = product_id p
                       then item\<lparr>quantity := quantity item + q'\<rparr> else item)
            (cart s @ [cartLine p q])"
    using addToCart_cart_present [OF refl b, of q'] a
    by (simp add: addToCart_cart_absent)
  also have "\<dots> = cart s @ [cartLine p (q + q')]"
    using map_bump_absent [OF a] by (simp add: cartLine_def)
  finally show "cart (run s [[AddToCart p q], [AddToCart p q']])
        = cart s @ [\<lparr>product_id = product_id p, product_name = product_name p,
                     price = price p, image = image p, description = description p,
                     quantity = q + q'\<rparr>]"
    by (simp add: run_def render_alone addToCart_def cartLine_def)
next
  show "map product_id (cart (render s [AddToCart p q, AddToCart p q']))
       = map product_id (cart (addToCart p q s))"
    by (simp add: render_two_addToCart addToCart_def ids_addToCart_cart)
qed (simp_all add: addToCart_def)

text \<open>
  The wallet added to the empty cart and, from the next render, added again; the wallet
  added to a cart that holds two wallets and a smartwatch.
\<close>

theorem addToCart_merge_or_append_witness:
  "product_id wallet \<notin> set (map product_id (cart initialStore))
   \<and> ids_distinct (cart initialStore)
   \<and> cart (addToCart wallet (Num 1) initialStore) = [cartLine wallet (Num 1)]
   \<and> cart (run initialStore [[AddToCart wallet (Num 1)], [AddToCart wallet (Num 2)]])
       = [cartLine wallet (Num 3)]
   \<and> product_id wallet \<in> set (map product_id (cart (initialStore\<lparr>cart := exampleCart\<rparr>)))
   \<and> cart (addToCart wallet (Num 4) (initialStore\<lparr>cart := exampleCart\<rparr>))
       = [cartLine wallet (Num 6), cartLine smartwatch (Num 1)]
   \<and> ids_distinct (cart (addToCart wallet (Num 4) (initialStore\<lparr>cart := exampleCart\<rparr>)))"
  using addToCart_merge_or_append [of wallet initialStore "Num 1" "Num 2"]
    addToCart_merge_or_append [of wallet "initialStore\<lparr>cart := exampleCart\<rparr>" "Num 4" 0]
  by (simp add: example_defs addToCart_def addToCart_cart_def ids_distinct_def number_eval)

subsection \<open>C4: setting the quantity of a cart line\<close>

text \<open>
  C4. For every cart state and id: \<open>updateCartQuantity\<close> with a quantity of at most 0
  removes the lines with that id and no other line (of a cart with pairwise distinct
  ids that is at most one line), and with any other quantity, a positive one in
  particular, it overwrites the quantity of the lines with that id and leaves all other
  lines unchanged; in particular \<open>updateCartQuantity id 0\<close> produces exactly the store
  that \<open>removeFromCart id\<close> produces. Nothing but the cart changes.
\<close>

theorem updateCartQuantity_spec:
  "(q \<le> 0 \<longrightarrow>
      cart (updateCartQuantity productId q s)
        = filter (\<lambda>item. product_id item \<noteq> productId) (cart s)
      \<and> productId \<notin> set (map product_id (cart (updateCartQuantity productId q s)))
      \<and> (ids_distinct (cart s) \<longrightarrow>
            length (cart s) \<le> length (cart (updateCartQuantity productId q s)) + 1))
   \<and> (0 < q \<or> \<not> q \<le> 0 \<longrightarrow>
      length (cart (updateCartQuantity productId q s)) = length (cart s)
      \<and> (\<forall>i < length (cart s).
            cart (updateCartQuantity productId q s) ! i =
              (if product_id (cart s ! i) = productId
               then (cart s ! i)\<lparr>quantity := q\<rparr> else cart s ! i)))
   \<and> updateCartQuantity productId 0 s = removeFromCart productId s
   \<and> isAdmin (updateCartQuantity productId q s) = isAdmin s
   \<and> products (updateCartQuantity productId q s) = products s
   \<and> orders (updateCartQuantity productId q s) = orders s"
proof (intro conjI impI)
  assume q: "q \<le> 0"
  then show "cart (updateCartQuantity productId q s)
        = filter (\<lambda>item. product_id item \<noteq> productId) (cart s)"
    by (simp add: updateCartQuantity_def removeFromCart_def)
  from q show "productId \<notin> set (map product_id (cart (updateCartQuantity productId q s)))"
    by (auto simp: updateCartQuantity_def removeFromCart_def)
  assume "ids_distinct (cart s)"
  with q show "length (cart s) \<le> length (cart (updateCartQuantity productId q s)) + 1"
    using length_filter_other [of product_id "cart s" productId]
    by (simp add: updateCartQuantity_def removeFromCart_def ids_distinct_def)
next
  assume "0 < q \<or> \<not> q \<le> 0"
  then have q: "\<not> q \<le> 0"
    using pos_not_le_zero by blast
  then show "length (cart (updateCartQuantity productId q s)) = length (cart s)"
    by (simp add: updateCartQuantity_def)
  from q show "\<forall>i < length (cart s).
            cart (updateCartQuantity productId q s) ! i =
              (if product_id (cart s ! i) = productId
               then (cart s ! i)\<lparr>quantity := q\<rparr> else cart s ! i)"
    by (simp add: updateCartQuantity_def)
next
  show "updateCartQuantity productId 0 s = removeFromCart productId s"
    by (simp add: updateCartQuantity_def number_ops)
qed (simp_all add: updateCartQuantity_def removeFromCart_def)

theorem updateCartQuantity_spec_witness:
  "ids_distinct (cart (initialStore\<lparr>cart := exampleCart\<rparr>))
   \<and> cart (updateCartQuantity ''1'' 0 (initialStore\<lparr>cart := exampleCart\<rparr>))
       = [cartLine smartwatch (Num 1)]
   \<and> updateCartQuantity ''1'' 0 (initialStore\<lparr>cart := exampleCart\<rparr>)
       = removeFromCart ''1'' (initialStore\<lparr>cart := exampleCart\<rparr>)
   \<and> cart (updateCartQuantity ''1'' (Num (- 3)) (initialStore\<lparr>cart := exampleCart\<rparr>))
       = [cartLine smartwatch (Num 1)]
   \<and> cart (updateCartQuantity ''1'' (Num 5) (initialStore\<lparr>cart := exampleCart\<rparr>))
       = [cartLine wallet (Num 5), cartLine smartwatch (Num 1)]
   \<and> cart (updateCartQuantity ''1'' NaN (initialStore\<lparr>cart := exampleCart\<rparr>))
       = [cartLine wallet NaN, cartLine smartwatch (Num 1)]"
  using updateCartQuantity_spec [of 0 "''1''" "initialStore\<lparr>cart := exampleCart\<rparr>"]
    updateCartQuantity_spec [of "Num (- 3)" "''1''" "initialStore\<lparr>cart := exampleCart\<rparr>"]
    updateCartQuantity_spec [of "Num 5" "''1''" "initialStore\<lparr>cart := exampleCart\<rparr>"]
    updateCartQuantity_spec [of NaN "''1''" "initialStore\<lparr>cart := exampleCart\<rparr>"]
  by (simp add: example_defs updateCartQuantity_def removeFromCart_def ids_distinct_def
      number_ops)

subsection \<open>C8: the status of an order\<close>

text \<open>
  C8. For every orders list, id and status: \<open>updateOrderStatus\<close> sets the status field
  of the orders whose id matches and changes nothing else: every other field of such an
  order (its id, customerInfo, items, totalAmount, paymentMethod and timestamp) and
  every other order are unchanged, as are the admin flag, the products and the cart;
  when no order has that id the whole store is unchanged.
\<close>

theorem updateOrderStatus_frame:
  "length (orders (updateOrderStatus orderId st s)) = length (orders s)
   \<and> (\<forall>i < length (orders s).
         orders (updateOrderStatus orderId st s) ! i =
           (if order_id (orders s ! i) = orderId
            then (orders s ! i)\<lparr>status := st\<rparr> else orders s ! i)
         \<and> order_id (orders (updateOrderStatus orderId st s) ! i) = order_id (orders s ! i)
         \<and> customerInfo (orders (updateOrderStatus orderId st s) ! i)
             = customerInfo (orders s ! i)
         \<and> items (orders (updateOrderStatus orderId st s) ! i) = items (orders s ! i)
         \<and> totalAmount (orders (updateOrderStatus orderId st s) ! i)
             = totalAmount (orders s ! i)
         \<and> paymentMethod (orders (updateOrderStatus orderId st s) ! i)
             = paymentMethod (orders s ! i)
         \<and> timestamp (orders (updateOrderStatus orderId st s) ! i) = timestamp (orders s ! i)
         \<and> status (orders (updateOrderStatus orderId st s) ! i)
             = (if order_id (orders s ! i) = orderId then st else status (orders s ! i)))
   \<and> isAdmin (updateOrderStatus orderId st s) = isAdmin s
   \<and> products (updateOrderStatus orderId st s) = products s
   \<and> cart (updateOrderStatus orderId st s) = cart s
   \<and> (orderId \<notin> set (map order_id (orders s)) \<longrightarrow> updateOrderStatus orderId st s = s)"
proof (intro conjI impI)
  assume "orderId \<notin> set (map order_id (orders s))"
  then have "map (\<lambda>ord. if order_id ord = orderId then ord\<lparr>status := st\<rparr> else ord) (orders s)
             = orders s"
    by (intro map_idI) auto
  then show "updateOrderStatus orderId st s = s"
    by (simp add: updateOrderStatus_def)
qed (simp_all add: updateOrderStatus_def)

text \<open>Order 17 is delivered; no order has the id 99.\<close>

theorem updateOrderStatus_frame_witness:
  "orders (updateOrderStatus ''17'' Delivered (initialStore\<lparr>orders := exampleOrders\<rparr>))
     = [(exampleOrders ! 0)\<lparr>status := Delivered\<rparr>, exampleOrders ! 1]
   \<and> totalAmount
        (orders (updateOrderStatus ''17'' Delivered (initialStore\<lparr>orders := exampleOrders\<rparr>)) ! 0)
       = Num 5250
   \<and> ''99'' \<notin> set (map order_id (orders (initialStore\<lparr>orders := exampleOrders\<rparr>)))
   \<and> updateOrderStatus ''99'' Delivered (initialStore\<lparr>orders := exampleOrders\<rparr>)
       = initialStore\<lparr>orders := exampleOrders\<rparr>"
  using updateOrderStatus_frame [of "''17''" Delivered "initialStore\<lparr>orders := exampleOrders\<rparr>"]
    updateOrderStatus_frame [of "''99''" Delivered "initialStore\<lparr>orders := exampleOrders\<rparr>"]
  by (simp add: example_defs updateOrderStatus_def)

subsection \<open>C1: placing an order\<close>

text \<open>
  C1 as it is written fails twice. The revision of \<open>placeOrder\<close> at lines 138-152 has no
  shipping cost: there the order for two wallets totals 5000, not 5000 plus the
  shipping constant. And the total is a sum of doubles: in the revision of lines
  898-914 three stickers at 0.1 total 250.3 (the double next to it), which is not three
  times the price plus 250.
\<close>

theorem placeOrder_nonempty_counterexample:
  "[cartLine wallet (Num 2)] \<noteq> []
   \<and> totalAmount (last (orders (snd
        (placeOrder_138 1700000000000 1700000000001 exampleCustomer [cartLine wallet (Num 2)]
           (initialStore\<lparr>cart := [cartLine wallet (Num 2)]\<rparr>))))) = Num 5000
   \<and> exact (price wallet) * exact (Num 2) + exact SHIPPING_COST = 5250
   \<and> totalAmount (last (orders (snd
        (placeOrder 1700000000000 1700000000001 exampleCustomer [cartLine sticker (Num 3)]
           (initialStore\<lparr>cart := [cartLine sticker (Num 3)]\<rparr>)))))
       = Num (4403324166917325 / 17592186044416)
   \<and> exact (price sticker) * exact (Num 3) + exact SHIPPING_COST
       = 9018007893846681191 / 36028797018963968
   \<and> (4403324166917325 / 17592186044416 :: rat) \<noteq> 9018007893846681191 / 36028797018963968"
  by (simp add: example_defs placeOrder_def placeOrder_138_def newOrder_def newOrder_138_def
      clearCart_def itemsSubtotal_def SHIPPING_COST_def exact_def tenth three_tenths
      three_tenths_double three_tenths_and_shipping number_eval)

text \<open>
  C1, amended. For every non-empty cart-item list and every customerInfo, \<open>placeOrder\<close>
  appends exactly one new order to the orders list, clears the cart to empty and returns
  the new order's id (not null); the new order holds the items and the customerInfo, is
  pending, is paid cash on delivery and carries the clock readings as id and timestamp.
  Its \<open>totalAmount\<close> is the items' subtotal, the sum of price times quantity taken from
  left to right in double arithmetic, plus the fixed shipping constant 250 in the
  revision of lines 898-914, and the items' subtotal alone in the revision of lines
  138-152, which has no shipping cost. For integer prices and quantities whose products
  add up, with the shipping constant, to at most \<open>2\<^sup>5\<^sup>3\<close> in magnitude, these are the
  exact sums.
\<close>

theorem placeOrder_nonempty:
  assumes "cartItems \<noteq> []"
  shows "fst (placeOrder now_id now_ts info cartItems s) = Some (toString now_id)
   \<and> orders (snd (placeOrder now_id now_ts info cartItems s))
       = orders s @
         [\<lparr>order_id = toString now_id, customerInfo = info, items = cartItems,
           totalAmount =
             foldl (\<lambda>total item. total + price item * quantity item) 0 cartItems + Num 250,
           paymentMethod = Cash_on_Delivery, timestamp = now_ts, status = Pending\<rparr>]
   \<and> cart (snd (placeOrder now_id now_ts info cartItems s)) = []
   \<and> products (snd (placeOrder now_id now_ts info cartItems s)) = products s
   \<and> isAdmin (snd (placeOrder now_id now_ts info cartItems s)) = isAdmin s
   \<and> fst (placeOrder_138 now_id now_ts info cartItems s) = Some (toString now_id)
   \<and> orders (snd (placeOrder_138 now_id now_ts info cartItems s))
       = orders s @
         [\<lparr>order_id = toString now_id, customerInfo = info, items = cartItems,
           totalAmount = foldl (\<lambda>total item. total + price item * quantity item) 0 cartItems,
           paymentMethod = Cash_on_Delivery, timestamp = now_ts, status = Pending\<rparr>]
   \<and> cart (snd (placeOrder_138 now_id now_ts info cartItems s)) = []
   \<and> products (snd (placeOrder_138 now_id now_ts info cartItems s)) = products s
   \<and> isAdmin (snd (placeOrder_138 now_id now_ts info cartItems s)) = isAdmin s
   \<and> ((\<forall>item\<in>set cartItems. integral (price item) \<and> integral (quantity item))
        \<and> (\<Sum>item\<leftarrow>cartItems. \<bar>int_of (price item) * int_of (quantity item)\<bar>) + 250
            \<le> 2 ^ 53 \<longrightarrow>
      totalAmount (last (orders (snd (placeOrder now_id now_ts info cartItems s))))
        = Num (of_int ((\<Sum>item\<leftarrow>cartItems. int_of (price item) * int_of (quantity item))
                       + 250))
      \<and> totalAmount (last (orders (snd (placeOrder_138 now_id now_ts info cartItems s))))
        = Num (of_int (\<Sum>item\<leftarrow>cartItems. int_of (price item) * int_of (quantity item))))"
proof (intro conjI impI)
  assume h: "(\<forall>item\<in>set cartItems. integral (price item) \<and> integral (quantity item))
        \<and> (\<Sum>item\<leftarrow>cartItems. \<bar>int_of (price item) * int_of (quantity item)\<bar>) + 250
            \<le> 2 ^ 53"
  define t where "t = (\<Sum>item\<leftarrow>cartItems. int_of (price item) * int_of (quantity item))"
  from h have sub: "itemsSubtotal cartItems = Num (of_int t)"
    unfolding t_def by (intro subtotal_exact) simp_all
  from h have "(\<Sum>item\<leftarrow>cartItems. \<bar>int_of (price item) * int_of (quantity item)\<bar>) + 250
      \<le> 2 ^ 53"
    by simp
  with abs_sum_list_le [of "\<lambda>item. int_of (price item) * int_of (quantity item)" cartItems]
  have "\<bar>t + 250\<bar> \<le> 2 ^ 53"
    unfolding t_def by linarith
  from add_int_exact [OF this] have "Num (of_int t) + Num 250 = Num (of_int (t + 250))"
    by simp
  with assms sub
  show "totalAmount (last (orders (snd (placeOrder now_id now_ts info cartItems s))))
        = Num (of_int ((\<Sum>item\<leftarrow>cartItems. int_of (price item) * int_of (quantity item))
                       + 250))"
    by (simp add: placeOrder_def newOrder_def clearCart_def SHIPPING_COST_def t_def
        del: of_int_add)
  from assms sub
  show "totalAmount (last (orders (snd (placeOrder_138 now_id now_ts info cartItems s))))
        = Num (of_int (\<Sum>item\<leftarrow>cartItems. int_of (price item) * int_of (quantity item)))"
    by (simp add: placeOrder_138_def newOrder_138_def clearCart_def t_def)
qed (use assms in \<open>simp_all add: placeOrder_def placeOrder_138_def newOrder_def
      newOrder_138_def clearCart_def itemsSubtotal_def SHIPPING_COST_def\<close>)

text \<open>Two wallets and a smartwatch are ordered: 20000, and 250 for shipping.\<close>

theorem placeOrder_nonempty_witness:
  "exampleCart \<noteq> []
   \<and> fst (placeOrder 1700000000000 1700000000001 exampleCustomer exampleCart
        (initialStore\<lparr>cart := exampleCart\<rparr>)) = Some ''1700000000000''
   \<and> length (orders (snd (placeOrder 1700000000000 1700000000001 exampleCustomer exampleCart
        (initialStore\<lparr>cart := exampleCart\<rparr>)))) = 1
   \<and> totalAmount (last (orders (snd
        (placeOrder 1700000000000 1700000000001 exampleCustomer exampleCart
           (initialStore\<lparr>cart := exampleCart\<rparr>))))) = Num 20250
   \<and> cart (snd (placeOrder 1700000000000 1700000000001 exampleCustomer exampleCart
        (initialStore\<lparr>cart := exampleCart\<rparr>))) = []
   \<and> totalAmount (last (orders (snd
        (placeOrder_138 1700000000000 1700000000001 exampleCustomer exampleCart
           (initialStore\<lparr>cart := exampleCart\<rparr>))))) = Num 20000"
  using placeOrder_nonempty [of exampleCart 1700000000000 1700000000001 exampleCustomer
      "initialStore\<lparr>cart := exampleCart\<rparr>"]
  by (simp add: example_defs placeOrder_def placeOrder_138_def newOrder_def newOrder_138_def
      clearCart_def itemsSubtotal_def SHIPPING_COST_def integral_def int_of_def
      toString.simps digit_def number_eval)

subsection \<open>C7: cart quantities are at least 1\<close>




subsection \<open>C9: adding a product\<close>

text \<open>
  C9 as it is written fails: the id is the clock reading. A product added in the
  millisecond in which an earlier one was added gets the id of the earlier one.
\<close>

theorem addProduct_appends_counterexample:
  "product_id (newProduct 1700000000000 mug)
     \<in> set (map product_id (products (addProduct 1700000000000 cup initialStore)))
   \<and> \<not> distinct (map product_id
         (products (addProduct 1700000000000 mug (addProduct 1700000000000 cup initialStore))))"
  by (simp add: addProduct_def newProduct_def)

text \<open>
  C9, amended. For every product collection and product data, \<open>addProduct\<close> appends
  exactly one new product, which carries the data and whose id is the decimal rendering
  of the clock reading at the call. That id is distinct from the id of every product
  already in the collection whenever no product in the collection has this rendering as
  its id (then product ids remain unique keys); products added at different clock
  readings get different ids.
\<close>

theorem addProduct_appends:
  "products (addProduct now productData s) = products s @ [newProduct now productData]
   \<and> product_id (newProduct now productData) = toString now
   \<and> product_name (newProduct now productData) = data_name productData
   \<and> price (newProduct now productData) = data_price productData
   \<and> image (newProduct now productData) = data_image productData
   \<and> description (newProduct now productData) = data_description productData
   \<and> isAdmin (addProduct now productData s) = isAdmin s
   \<and> cart (addProduct now productData s) = cart s
   \<and> orders (addProduct now productData s) = orders s
   \<and> (toString now \<notin> set (map product_id (products s)) \<longrightarrow>
        product_id (newProduct now productData) \<notin> set (map product_id (products s))
        \<and> (distinct (map product_id (products s)) \<longrightarrow>
             distinct (map product_id (products (addProduct now productData s)))))
   \<and> (now \<noteq> now' \<longrightarrow>
        product_id (newProduct now productData) \<noteq> product_id (newProduct now' productData'))"
  using toString_inj [of now now']
  by (auto simp: addProduct_def newProduct_def)

text \<open>A cup and, a millisecond later, a mug are added to the initial products.\<close>

theorem addProduct_appends_witness:
  "toString 1700000000000 \<notin> set (map product_id (products initialStore))
   \<and> distinct (map product_id (products initialStore))
   \<and> length (products (addProduct 1700000000000 cup initialStore)) = 7
   \<and> product_id (last (products (addProduct 1700000000000 cup initialStore)))
       = ''1700000000000''
   \<and> distinct (map product_id (products (addProduct 1700000000000 cup initialStore)))
   \<and> (1700000000000 :: nat) \<noteq> 1700000000001
   \<and> product_id (newProduct 1700000000000 cup) \<noteq> product_id (newProduct 1700000000001 mug)"
  using addProduct_appends [of 1700000000000 cup initialStore 1700000000001 mug]
  by (simp add: example_defs addProduct_def newProduct_def toString.simps digit_def)

subsection \<open>C10: adding to the cart and the item count\<close>

text \<open>
  C10 as it is written fails. On a cart in which two lines share an id (a cart read from
  the browser storage can be any list of lines) \<open>addToCart\<close> adds the quantity to each
  of them, and the item count grows by twice the quantity. And the count is a sum of
  doubles: one more wallet on a line of \<open>2\<^sup>5\<^sup>3\<close> wallets leaves the count at \<open>2\<^sup>5\<^sup>3\<close>, and
  after a quantity of \<^verbatim>\<open>NaN\<close> the count is \<^verbatim>\<open>NaN\<close>, which equals nothing.
\<close>

theorem addToCart_count_counterexample:
  "cartItemCount (initialStore\<lparr>cart := [cartLine wallet 1, cartLine wallet 1]\<rparr>) = Num 2
   \<and> cartItemCount
        (addToCart wallet 1 (initialStore\<lparr>cart := [cartLine wallet 1, cartLine wallet 1]\<rparr>))
       = Num 4
   \<and> cartItemCount (initialStore\<lparr>cart := [cartLine wallet (Num 9007199254740992)]\<rparr>)
       = Num 9007199254740992
   \<and> cartItemCount
        (addToCart wallet 1 (initialStore\<lparr>cart := [cartLine wallet (Num 9007199254740992)]\<rparr>))
       = Num 9007199254740992
   \<and> cartItemCount (addToCart wallet 1 (initialStore\<lparr>cart := [cartLine wallet NaN]\<rparr>)) = NaN"
  by (simp add: example_defs addToCart_def addToCart_cart_def cartItemCount_def saturated
      number_eval)

text \<open>
  C10, amended. For every cart state whose lines have pairwise distinct ids (every cart
  the operations build from the empty cart is one) and integer quantities, every
  product \<open>p\<close> and every integer quantity \<open>q\<close>, the magnitudes of the quantities and of
  \<open>q\<close> adding up to at most \<open>2\<^sup>5\<^sup>3\<close>, \<open>addToCart\<close> increases the derived cart item
  count by exactly \<open>q\<close>, whether it merges into an existing line or appends a new one:
  the count before and the count after are the exact sums. For every cart state it
  leaves the products and orders collections unchanged and keeps distinct ids distinct,
  and when it appends a new line the count after is the count before plus \<open>q\<close> as
  doubles add.
\<close>

theorem addToCart_count:
  "(product_id p \<notin> set (map product_id (cart s)) \<longrightarrow>
      cartItemCount (addToCart p q s) = cartItemCount s + q)
   \<and> (ids_distinct (cart s) \<and> (\<forall>item\<in>set (cart s). integral (quantity item)) \<and> integral q
        \<and> (\<Sum>item\<leftarrow>cart s. \<bar>int_of (quantity item)\<bar>) + \<bar>int_of q\<bar> \<le> 2 ^ 53 \<longrightarrow>
      cartItemCount (addToCart p q s) = cartItemCount s + q
      \<and> cartItemCount s = Num (of_int (\<Sum>item\<leftarrow>cart s. int_of (quantity item)))
      \<and> cartItemCount (addToCart p q s)
          = Num (of_int ((\<Sum>item\<leftarrow>cart s. int_of (quantity item)) + int_of q)))
   \<and> (ids_distinct (cart s) \<longrightarrow> ids_distinct (cart (addToCart p q s)))
   \<and> products (addToCart p q s) = products s
   \<and> orders (addToCart p q s) = orders s"
proof -
  have absent: "cartItemCount (addToCart p q s) = cartItemCount s + q"
    if "product_id p \<notin> set (map product_id (cart s))"
    using that by (simp add: addToCart_def cartItemCount_def addToCart_cart_absent cartLine_def)
  have exact_case: "cartItemCount (addToCart p q s) = cartItemCount s + q
      \<and> cartItemCount s = Num (of_int (\<Sum>item\<leftarrow>cart s. int_of (quantity item)))
      \<and> cartItemCount (addToCart p q s)
          = Num (of_int ((\<Sum>item\<leftarrow>cart s. int_of (quantity item)) + int_of q))"
    if h: "ids_distinct (cart s) \<and> (\<forall>item\<in>set (cart s). integral (quantity item))
        \<and> integral q
        \<and> (\<Sum>item\<leftarrow>cart s. \<bar>int_of (quantity item)\<bar>) + \<bar>int_of q\<bar> \<le> 2 ^ 53"
  proof -
    define t where "t = (\<Sum>item\<leftarrow>cart s. int_of (quantity item))"
    from h have bound: "(\<Sum>item\<leftarrow>cart s. \<bar>int_of (quantity item)\<bar>) + \<bar>int_of q\<bar> \<le> 2 ^ 53"
      by simp
    then have "(\<Sum>item\<leftarrow>cart s. \<bar>int_of (quantity item)\<bar>) \<le> 2 ^ 53"
      by linarith
    with h have before: "cartItemCount s = Num (of_int t)"
      unfolding cartItemCount_def t_def by (intro fold_add_exact_0) simp_all
    from h have q: "q = Num (of_int (int_of q))"
      by (simp add: integral_Num)
    from bound abs_sum_list_le [of "\<lambda>item. int_of (quantity item)" "cart s"]
    have "\<bar>t + int_of q\<bar> \<le> 2 ^ 53"
      unfolding t_def by linarith
    from add_int_exact [OF this] q
    have plus: "Num (of_int t) + q = Num (of_int (t + int_of q))"
      by simp
    have after: "cartItemCount (addToCart p q s) = Num (of_int (t + int_of q))"
    proof (cases "product_id p \<in> set (map product_id (cart s))")
      case True
      from h have "distinct (map product_id (cart s))"
        by (simp add: ids_distinct_def)
      from bump_exact [OF this _ _ _ True, of q] h
      have i: "\<forall>item\<in>set (addToCart_cart p q (cart s)). integral (quantity item)"
        and b: "(\<Sum>item\<leftarrow>addToCart_cart p q (cart s). \<bar>int_of (quantity item)\<bar>) \<le> 2 ^ 53"
        and v: "(\<Sum>item\<leftarrow>addToCart_cart p q (cart s). int_of (quantity item)) = t + int_of q"
        by (simp_all add: addToCart_cart_present [OF refl True] t_def)
      from fold_add_exact_0 [OF i b] show ?thesis
        by (simp add: cartItemCount_def addToCart_def v)
    next
      case False
      from absent [OF this] before plus show ?thesis
        by simp
    qed
    from before plus after show ?thesis
      by (simp add: t_def)
  qed
  show ?thesis
  proof (intro conjI impI)
    assume "product_id p \<notin> set (map product_id (cart s))"
    then show "cartItemCount (addToCart p q s) = cartItemCount s + q"
      by (rule absent)
  next
    assume h: "ids_distinct (cart s) \<and> (\<forall>item\<in>set (cart s). integral (quantity item))
        \<and> integral q
        \<and> (\<Sum>item\<leftarrow>cart s. \<bar>int_of (quantity item)\<bar>) + \<bar>int_of q\<bar> \<le> 2 ^ 53"
    from exact_case [OF h] show "cartItemCount (addToCart p q s) = cartItemCount s + q"
      by blast
    from exact_case [OF h]
    show "cartItemCount s = Num (of_int (\<Sum>item\<leftarrow>cart s. int_of (quantity item)))"
      by blast
    from exact_case [OF h]
    show "cartItemCount (addToCart p q s)
          = Num (of_int ((\<Sum>item\<leftarrow>cart s. int_of (quantity item)) + int_of q))"
      by blast
  next
    assume "ids_distinct (cart s)"
    then show "ids_distinct (cart (addToCart p q s))"
      by (simp add: addToCart_def ids_distinct_addToCart_cart)
  qed (simp_all add: addToCart_def)
qed

text \<open>Three wallets merge into the line of two; a headphone line is appended.\<close>

theorem addToCart_count_witness:
  "ids_distinct (cart (initialStore\<lparr>cart := exampleCart\<rparr>))
   \<and> cartItemCount (initialStore\<lparr>cart := exampleCart\<rparr>) = Num 3
   \<and> cartItemCount (addToCart wallet (Num 3) (initialStore\<lparr>cart := exampleCart\<rparr>)) = Num 6
   \<and> product_id (initialProducts ! 2)
       \<notin> set (map product_id (cart (initialStore\<lparr>cart := exampleCart\<rparr>)))
   \<and> cartItemCount
        (addToCart (initialProducts ! 2) (Num 4) (initialStore\<lparr>cart := exampleCart\<rparr>))
       = Num 7"
  using addToCart_count [of wallet "initialStore\<lparr>cart := exampleCart\<rparr>" "Num 3"]
    addToCart_count [of "initialProducts ! 2" "initialStore\<lparr>cart := exampleCart\<rparr>" "Num 4"]
  by (simp add: example_defs ids_distinct_def integral_def int_of_def number_eval)


end
